theory Spec2Isabelle
  imports Main "HOL-Library.Word" "HOL-Library.Sublist"
begin

section \<open>JavaScript strings\<close>

text \<open>
  A JavaScript string is a sequence of UTF-16 code units; \<open>indexOf\<close>, \<open>lastIndexOf\<close>,
  \<open>substring\<close> and \<open>length\<close> all count code units. The literals of the source are ASCII
  and are written with \<open>js\<close>, which maps every character to its code unit.
\<close>

type_synonym code_unit = "16 word"
type_synonym js_string = "code_unit list"

definition js :: "string \<Rightarrow> js_string" where
  "js s = map of_char s"

definition LBRACE :: code_unit where "LBRACE = 0x7B"
definition RBRACE :: code_unit where "RBRACE = 0x7D"

text \<open>\<open>text.indexOf(c)\<close> for a one-character search string: the first index, or -1.\<close>

fun indexOf :: "js_string \<Rightarrow> code_unit \<Rightarrow> int" where
  "indexOf [] c = -1"
| "indexOf (x # xs) c =
     (if x = c then 0
      else (let i = indexOf xs c in if i = -1 then -1 else i + 1))"

text \<open>\<open>text.lastIndexOf(c)\<close> for a one-character search string: the last index, or -1.\<close>

fun lastIndexOf :: "js_string \<Rightarrow> code_unit \<Rightarrow> int" where
  "lastIndexOf [] c = -1"
| "lastIndexOf (x # xs) c =
     (let i = lastIndexOf xs c in
      if i \<noteq> -1 then i + 1 else if x = c then 0 else -1)"

text \<open>
  \<open>text.substring(a, b)\<close>: both arguments are clamped to \<open>[0, length]\<close> and swapped when
  the first exceeds the second.
\<close>

definition substring :: "js_string \<Rightarrow> int \<Rightarrow> int \<Rightarrow> js_string" where
  "substring s a b =
     (let n = int (length s);
          a' = max 0 (min a n);
          b' = max 0 (min b n);
          lo = min a' b';
          hi = max a' b'
      in take (nat (hi - lo)) (drop (nat lo) s))"

text \<open>
  The code units that \<open>trim\<close> strips: ECMAScript WhiteSpace (TAB, VT, FF, SP, NBSP,
  ZWNBSP and the Unicode space separators) and LineTerminator (LF, CR, LS, PS).
\<close>

definition isWhiteSpace :: "code_unit \<Rightarrow> bool" where
  "isWhiteSpace c \<longleftrightarrow>
     c = 0x09 \<or> c = 0x0A \<or> c = 0x0B \<or> c = 0x0C \<or> c = 0x0D \<or> c = 0x20 \<or>
     c = 0xA0 \<or> c = 0x1680 \<or> (0x2000 \<le> c \<and> c \<le> 0x200A) \<or>
     c = 0x2028 \<or> c = 0x2029 \<or> c = 0x202F \<or> c = 0x205F \<or> c = 0x3000 \<or>
     c = 0xFEFF"

definition trim :: "js_string \<Rightarrow> js_string" where
  "trim s = rev (dropWhile isWhiteSpace (rev (dropWhile isWhiteSpace s)))"

section \<open>JSON.parse\<close>

text \<open>
  The value \<open>JSON.parse\<close> builds, as a tree. A number keeps its lexeme (the conversion to
  a double is not modelled) and an object keeps its members in source order.
\<close>

datatype json =
    JNull
  | JBool bool
  | JNumber js_string
  | JString js_string
  | JArray "json list"
  | JObject "(js_string \<times> json) list"

datatype exn =
    Error js_string
  | SyntaxError
  | TransportFailure js_string
  | QuotaExceededError

definition isJsonWs :: "code_unit \<Rightarrow> bool" where
  "isJsonWs c \<longleftrightarrow> c = 0x09 \<or> c = 0x0A \<or> c = 0x0D \<or> c = 0x20"

definition skip_ws :: "js_string \<Rightarrow> js_string" where
  "skip_ws s = dropWhile isJsonWs s"

definition isDigit :: "code_unit \<Rightarrow> bool" where
  "isDigit c \<longleftrightarrow> 0x30 \<le> c \<and> c \<le> 0x39"

definition hexval :: "code_unit \<Rightarrow> code_unit option" where
  "hexval c =
     (if 0x30 \<le> c \<and> c \<le> 0x39 then Some (c - 0x30)
      else if 0x41 \<le> c \<and> c \<le> 0x46 then Some (c - 0x41 + 10)
      else if 0x61 \<le> c \<and> c \<le> 0x66 then Some (c - 0x61 + 10)
      else None)"

definition unescape :: "code_unit \<Rightarrow> code_unit option" where
  "unescape e =
     (if e = 0x22 then Some 0x22
      else if e = 0x5C then Some 0x5C
      else if e = 0x2F then Some 0x2F
      else if e = 0x62 then Some 0x08
      else if e = 0x66 then Some 0x0C
      else if e = 0x6E then Some 0x0A
      else if e = 0x72 then Some 0x0D
      else if e = 0x74 then Some 0x09
      else None)"

text \<open>
  The characters of a string literal after its opening quote, up to the closing quote:
  the decoded string and the rest of the input.
\<close>

fun parse_chars :: "js_string \<Rightarrow> js_string \<Rightarrow> (js_string \<times> js_string) option" where
  "parse_chars [] acc = None"
| "parse_chars (c # cs) acc =
     (if c = 0x22 then Some (rev acc, cs)
      else if c = 0x5C then
        (case cs of
           [] \<Rightarrow> None
         | e # es \<Rightarrow>
             if e = 0x75 then
               (case es of
                  h1 # h2 # h3 # h4 # rest \<Rightarrow>
                    (case (hexval h1, hexval h2, hexval h3, hexval h4) of
                       (Some a, Some b, Some c', Some d) \<Rightarrow>
                         parse_chars rest ((a * 0x1000 + b * 0x100 + c' * 0x10 + d) # acc)
                     | _ \<Rightarrow> None)
                | _ \<Rightarrow> None)
             else
               (case unescape e of
                  None \<Rightarrow> None
                | Some u \<Rightarrow> parse_chars es (u # acc)))
      else if c < 0x20 then None
      else parse_chars cs (c # acc))"

text \<open>
  A number: \<open>-? (0 | [1-9][0-9]*) (. [0-9]+)? ([eE] [+-]? [0-9]+)?\<close>; the lexeme and
  the rest of the input.
\<close>

definition parse_exponent :: "js_string \<Rightarrow> (js_string \<times> js_string) option" where
  "parse_exponent s =
     (case s of
        [] \<Rightarrow> Some ([], s)
      | e # es \<Rightarrow>
          if e = 0x65 \<or> e = 0x45 then
            (let (sg, r) = (case es of
                              [] \<Rightarrow> ([], es)
                            | p # ps \<Rightarrow> if p = 0x2B \<or> p = 0x2D then ([p], ps) else ([], es));
                 ds = takeWhile isDigit r
             in if ds = [] then None else Some (e # sg @ ds, dropWhile isDigit r))
          else Some ([], s))"

definition parse_fraction :: "js_string \<Rightarrow> (js_string \<times> js_string) option" where
  "parse_fraction s =
     (case s of
        [] \<Rightarrow> Some ([], s)
      | d # ds \<Rightarrow>
          if d = 0x2E then
            (let fs = takeWhile isDigit ds
             in if fs = [] then None else Some (d # fs, dropWhile isDigit ds))
          else Some ([], s))"

definition parse_number :: "js_string \<Rightarrow> (js_string \<times> js_string) option" where
  "parse_number s =
     (let (sg, r0) = (case s of
                        [] \<Rightarrow> ([], s)
                      | c # cs \<Rightarrow> if c = 0x2D then ([c], cs) else ([], s));
          ip = takeWhile isDigit r0;
          r1 = dropWhile isDigit r0
      in if ip = [] \<or> (1 < length ip \<and> hd ip = 0x30) then None
         else
           (case parse_fraction r1 of
              None \<Rightarrow> None
            | Some (fp, r2) \<Rightarrow>
                (case parse_exponent r2 of
                   None \<Rightarrow> None
                 | Some (ep, r3) \<Rightarrow> Some (sg @ ip @ fp @ ep, r3))))"

text \<open>
  The recursive descent over values, array elements and object members. The first
  argument bounds the number of nested calls; \<open>JSON_parse\<close> starts it at twice the length
  of the input plus two, and every pair of nested calls consumes a code unit.
\<close>

fun parse_value :: "nat \<Rightarrow> js_string \<Rightarrow> (json \<times> js_string) option"
  and parse_elements :: "nat \<Rightarrow> js_string \<Rightarrow> json list \<Rightarrow> (json list \<times> js_string) option"
  and parse_members ::
    "nat \<Rightarrow> js_string \<Rightarrow> (js_string \<times> json) list \<Rightarrow> ((js_string \<times> json) list \<times> js_string) option"
where
  "parse_value 0 s = None"
| "parse_value (Suc n) s =
     (case skip_ws s of
        [] \<Rightarrow> None
      | c # cs \<Rightarrow>
          if c = LBRACE then
            (case skip_ws cs of
               [] \<Rightarrow> None
             | d # ds \<Rightarrow>
                 if d = RBRACE then Some (JObject [], ds)
                 else (case parse_members n (d # ds) [] of
                         None \<Rightarrow> None
                       | Some (ms, r) \<Rightarrow> Some (JObject ms, r)))
          else if c = 0x5B then
            (case skip_ws cs of
               [] \<Rightarrow> None
             | d # ds \<Rightarrow>
                 if d = 0x5D then Some (JArray [], ds)
                 else (case parse_elements n (d # ds) [] of
                         None \<Rightarrow> None
                       | Some (vs, r) \<Rightarrow> Some (JArray vs, r)))
          else if c = 0x22 then
            (case parse_chars cs [] of
               None \<Rightarrow> None
             | Some (str, r) \<Rightarrow> Some (JString str, r))
          else if take 4 (c # cs) = js ''true'' then Some (JBool True, drop 4 (c # cs))
          else if take 5 (c # cs) = js ''false'' then Some (JBool False, drop 5 (c # cs))
          else if take 4 (c # cs) = js ''null'' then Some (JNull, drop 4 (c # cs))
          else
            (case parse_number (c # cs) of
               None \<Rightarrow> None
             | Some (lexeme, r) \<Rightarrow> Some (JNumber lexeme, r)))"
| "parse_elements 0 s acc = None"
| "parse_elements (Suc n) s acc =
     (case parse_value n s of
        None \<Rightarrow> None
      | Some (v, r) \<Rightarrow>
          (case skip_ws r of
             [] \<Rightarrow> None
           | c # cs \<Rightarrow>
               if c = 0x2C then parse_elements n cs (v # acc)
               else if c = 0x5D then Some (rev (v # acc), cs)
               else None))"
| "parse_members 0 s acc = None"
| "parse_members (Suc n) s acc =
     (case skip_ws s of
        [] \<Rightarrow> None
      | q # qs \<Rightarrow>
          if q \<noteq> 0x22 then None
          else
            (case parse_chars qs [] of
               None \<Rightarrow> None
             | Some (key, r) \<Rightarrow>
                 (case skip_ws r of
                    [] \<Rightarrow> None
                  | col # r' \<Rightarrow>
                      if col \<noteq> 0x3A then None
                      else
                        (case parse_value n r' of
                           None \<Rightarrow> None
                         | Some (v, r'') \<Rightarrow>
                             (case skip_ws r'' of
                                [] \<Rightarrow> None
                              | c # cs \<Rightarrow>
                                  if c = 0x2C then parse_members n cs ((key, v) # acc)
                                  else if c = RBRACE then Some (rev ((key, v) # acc), cs)
                                  else None)))))"

text \<open>\<open>JSON.parse(text)\<close>: one value, then nothing but whitespace; a SyntaxError otherwise.\<close>

definition JSON_parse :: "js_string \<Rightarrow> exn + json" where
  "JSON_parse s =
     (case parse_value (2 * length s + 2) s of
        None \<Rightarrow> Inl SyntaxError
      | Some (v, r) \<Rightarrow> if skip_ws r = [] then Inr v else Inl SyntaxError)"

section \<open>Structured-output recovery\<close>

definition cleanJson :: "js_string \<Rightarrow> js_string" where
  "cleanJson text =
     (let start = indexOf text LBRACE;
          end = lastIndexOf text RBRACE
      in if start = -1 \<or> end = -1 \<or> start > end then trim text
         else substring text start (end + 1))"

section \<open>Values in template literals and array helpers\<close>

text \<open>
  \<open>${x}\<close> in a template literal applies ToString: a string is itself, \<open>undefined\<close>
  reads \<open>undefined\<close>.
\<close>

definition ToString :: "js_string option \<Rightarrow> js_string" where
  "ToString v = (case v of None \<Rightarrow> js ''undefined'' | Some s \<Rightarrow> s)"

text \<open>
  ToString of a number, for the non-negative integers the program renders (article
  counts, one-based indices, clock readings): the decimal digits.
\<close>

definition digit_char :: "nat \<Rightarrow> code_unit" where
  "digit_char d = of_nat (48 + d)"

fun Number_toString :: "nat \<Rightarrow> js_string" where
  "Number_toString n =
     (if n < 10 then [digit_char n]
      else Number_toString (n div 10) @ [digit_char (n mod 10)])"

declare Number_toString.simps [simp del]

text \<open>\<open>xs.map((a, i) => f(a, i))\<close>: the callback receives the element and its index.\<close>

definition Array_map :: "('a \<Rightarrow> nat \<Rightarrow> 'b) \<Rightarrow> 'a list \<Rightarrow> 'b list" where
  "Array_map f xs = map (\<lambda>(i, a). f a i) (enumerate 0 xs)"

text \<open>\<open>xs.join(sep)\<close> on an array of strings.\<close>

fun Array_join :: "js_string list \<Rightarrow> js_string \<Rightarrow> js_string" where
  "Array_join [] sep = []"
| "Array_join [x] sep = x"
| "Array_join (x # y # ys) sep = x @ sep @ Array_join (y # ys) sep"

definition NEWLINE :: js_string where
  "NEWLINE = [0x0A]"

text \<open>A value that is \<open>undefined\<close> or the empty string is falsy.\<close>

definition falsy :: "js_string option \<Rightarrow> bool" where
  "falsy v \<longleftrightarrow> v = None \<or> v = Some []"

section \<open>Data model\<close>

text \<open>
  The declarations of \<open>types.ts\<close>, read off their uses: \<open>Language\<close>, \<open>ResearchFocus\<close>
  and \<open>CitationStyle\<close> are unions of string literals, so a value at run time is a string.
\<close>

record Article =
  title :: js_string
  authors :: js_string
  journal :: "js_string option"
  publication_date :: js_string
  ai_summary :: js_string
  significance :: js_string
  url :: "js_string option"

record ResearchResult =
  topic :: js_string
  summary :: js_string
  suggestedVisualPrompt :: js_string
  articles :: "Article list"

record ResearchConfig =
  focus :: js_string
  count :: nat
  language :: js_string

section \<open>Configuration compiler\<close>

text \<open>
  \<open>languageNames[language]\<close>: the own properties of the object literal. A key that is
  neither one of them nor a member of \<open>Object.prototype\<close> reads as \<open>undefined\<close>; the
  inherited members (\<open>constructor\<close>, \<open>toString\<close>, ...) are not modelled.
\<close>

definition languageNames :: "(js_string \<times> js_string) list" where
  "languageNames =
     [(js ''en'', js ''English''),
      (js ''zh'', js ''Chinese (Simplified)''),
      (js ''ja'', js ''Japanese'')]"

definition property :: "(js_string \<times> js_string) list \<Rightarrow> js_string \<Rightarrow> js_string option" where
  "property obj key = map_of obj key"

definition focus_classic :: "js_string" where
  \<open>focus_classic =
     js ''PRIORITY: FOCUS HEAVILY ON HISTORY.
      1. Identify the most seminal "Foundational" papers that started the field (the classics).
      2. Include a few recent papers only if they fundamentally changed the original paradigms.
      3. The list should be dominated by the most cited, historical works.''\<close>

definition focus_recent :: "js_string" where
  \<open>focus_recent =
     js ''PRIORITY: FOCUS HEAVILY ON THE LAST 5 YEARS.
      1. Identify key "Recent Breakthroughs" or "State of the Art" papers primarily from 2020-2025.
      2. Only include the absolute most vital 1-2 historical papers for context.
      3. The list should be dominated by recent advancements.''\<close>

definition focus_balanced :: "js_string" where
  \<open>focus_balanced =
     js ''PRIORITY: BALANCE HISTORY AND MODERNITY.
      1. Identify the most seminal "Foundational" papers that started the field (the classics).
      2. CRITICAL: Identify key "Recent Breakthroughs" or "State of the Art" papers from the last 3-5 years (2020-2025).
      3. The list MUST be a 50/50 mix of history and modern state-of-the-art.''\<close>

text \<open>The \<open>switch (config.focus)\<close>: two cases, everything else is the default.\<close>

definition focusInstruction :: "js_string \<Rightarrow> js_string" where
  "focusInstruction f =
     (if f = js ''classic'' then focus_classic
      else if f = js ''recent'' then focus_recent
      else focus_balanced)"

definition targetLanguage :: "ResearchConfig \<Rightarrow> js_string option" where
  "targetLanguage config = property languageNames (language config)"

text \<open>The template of the system instruction, over its two interpolated variables.\<close>

definition systemInstruction_template :: "js_string option \<Rightarrow> js_string \<Rightarrow> js_string" where
  \<open>systemInstruction_template lang block =
     js ''You are an expert academic researcher and historian of science. 
  Your goal is to research a specific concept, method, or field provided by the user.
  
  IMPORTANT LANGUAGE REQUIREMENT:
  The user has requested the output in '' @
     ToString lang @
     js ''.
  - The "summary", "ai_summary", and "significance" fields MUST be written in '' @
     ToString lang @
     js ''.
  - The "title", "authors", and "journal" should generally remain in their original language (usually English for science) unless there is a standard translation.

  STRICT PAPER SELECTION CRITERIA:
  1. ARTICLE TYPE: 
     - Select ONLY original "Research Articles" (Primary Research).
     - STRICTLY EXCLUDE "Review Articles" (systematic reviews, literature reviews).
     - STRICTLY EXCLUDE "Letters" (short communications, letters to the editor), "Editorials", and "Perspectives".
  
  2. QUALITY & IMPACT:
     - Prioritize papers published in top-tier, high-impact journals (e.g., Nature, Science, Cell, PNAS, or top conferences/journals specific to the field).
     - Prioritize papers with high citation counts relative to their publication year.
     - Use your academic judgment to select papers that represent true milestones in scientific progress.
  
  '' @
     block @
     js ''
  
  4. Summarize the historical development and evolution of the field in '' @
     ToString lang @
     js ''.
  5. Explain the significance of each selected paper in '' @
     ToString lang @
     js ''.
  6. Create a visual description for a timeline that represents this evolution.
  
  Return the output in strictly valid JSON format. Do not include markdown code blocks if possible, just the raw JSON string.''\<close>

definition systemInstruction :: "ResearchConfig \<Rightarrow> js_string" where
  "systemInstruction config =
     systemInstruction_template (targetLanguage config) (focusInstruction (focus config))"

definition prompt :: "js_string \<Rightarrow> ResearchConfig \<Rightarrow> js_string" where
  \<open>prompt tpc config =
     js ''Conduct deep research on the field: "'' @
     tpc @
     js ''".
  
  Use Google Search to verify authors, titles, publication dates, article types, journal names, and citation impact.
  Ensure ALL selected papers are Primary Research Articles. Do not include Reviews.
  
  TARGET ARTICLE COUNT: '' @
     Number_toString (count config) @
     js ''
  You must aim to find '' @
     Number_toString (count config) @
     js '' distinct, high-quality papers. 
  If there aren't enough seminal papers to meet this number (e.g., for a very new field), list as many as possible, but do not hallucinate.
  
  Output JSON structure:
  {
    "topic": "'' @
     tpc @
     js ''",
    "summary": "A comprehensive narrative summary of how this field developed in '' @
     ToString (targetLanguage config) @
     js '', explicitly mentioning recent trends in the last paragraph...",
    "suggestedVisualPrompt": "A detailed prompt to generate a timeline infographic showing...",
    "articles": [
      {
        "title": "Exact Title",
        "authors": "List of authors (comma separated)",
        "journal": "Full name of the journal where it was published (e.g. Nature, NeurIPS)",
        "publication_date": "YYYY-MM-DD (or YYYY if exact date unknown)",
        "ai_summary": "Brief summary of the content in '' @
     ToString (targetLanguage config) @
     js ''",
        "significance": "Why this paper is important (mention journal/impact if relevant) in '' @
     ToString (targetLanguage config) @
     js ''",
        "url": "URL to the paper (or search result link)"
      }
    ]
  }''\<close>

text \<open>The literature-review stage.\<close>

definition articleList_entry :: "Article \<Rightarrow> nat \<Rightarrow> js_string" where
  \<open>articleList_entry a i =
     js ''
    ['' @
     Number_toString (i + 1) @
     js ''] Title: '' @
     title a @
     js ''
    Authors: '' @
     authors a @
     js ''
    Journal: '' @
     ToString (journal a) @
     js ''
    Year: '' @
     publication_date a @
     js ''
    Summary: '' @
     ai_summary a @
     js ''
    Significance: '' @
     significance a @
     js ''
  ''\<close>

definition style_ieee :: "js_string" where
  \<open>style_ieee =
     js ''CITATION STYLE: IEEE (Numeric).
      - Use numeric citations in square brackets like [1], [2] in the text.
      - CRITICAL: The References list MUST be sorted by the order of appearance in the text (Citation Order), NOT alphabetically.
      - The References section MUST be a numbered list corresponding to the appearance order.''\<close>

definition style_mla :: "js_string" where
  \<open>style_mla =
     js ''CITATION STYLE: MLA.
      - Use (Author Page) or (Author) style in text.
      - References should be labeled "Works Cited" and formatted in MLA style (Alphabetical).''\<close>

definition style_harvard :: "js_string" where
  \<open>style_harvard =
     js ''CITATION STYLE: Harvard.
      - Use (Author, Year) in text.
      - References should be alphabetical and formatted in Harvard style.''\<close>

definition style_apa :: "js_string" where
  \<open>style_apa =
     js ''CITATION STYLE: APA 7th Edition.
      - Use (Author, Year) in text.
      - References should be labeled "References" and formatted in APA 7th style (Alphabetical).''\<close>

definition styleInstruction :: "js_string \<Rightarrow> js_string" where
  "styleInstruction citationStyle =
     (if citationStyle = js ''ieee'' then style_ieee
      else if citationStyle = js ''mla'' then style_mla
      else if citationStyle = js ''harvard'' then style_harvard
      else style_apa)"

definition articleList :: "ResearchResult \<Rightarrow> js_string" where
  "articleList res = Array_join (Array_map articleList_entry (articles res)) NEWLINE"

definition review_prompt :: "ResearchResult \<Rightarrow> js_string \<Rightarrow> js_string \<Rightarrow> js_string" where
  \<open>review_prompt res lang citationStyle =
     js ''
  Write a high-quality academic Literature Review based ONLY on the provided articles about "'' @
     topic res @
     js ''".

  LANGUAGE: Write the review in '' @
     ToString (property languageNames lang) @
     js ''.

  '' @
     styleInstruction citationStyle @
     js ''

  STRUCTURE:
  1. Title (Top of page)
  2. Introduction: Define the scope and importance of the topic.
  3. Thematic Analysis: Synthesize the papers by themes, methodology, or chronological evolution. DO NOT just list them one by one. Compare and contrast findings.
  4. Conclusion: Summarize the state of the field and potential future directions.
  5. References / Works Cited: 
     - Strictly formatted as a MARKDOWN LIST (e.g., "1. [1] Author..." or "- Author..."). 
     - ENSURE every reference starts on a NEW LINE. 
     - Do NOT group them into a single paragraph.

  SOURCE DATA:
  '' @
     articleList res @
     js ''
  ''\<close>

definition review_systemInstruction :: "js_string" where
  \<open>review_systemInstruction =
     js ''You are an expert academic writer specializing in literature reviews. 
  You write in a formal, objective, and synthesized manner.
  You strictly follow the requested citation style.
  For IEEE style, you STRICTLY respect the order of appearance for the bibliography.
  You do not hallucinate sources outside of the provided list.
  Return the output in Markdown format.''\<close>

section \<open>Generation stages\<close>

text \<open>
  The model transport is outside the program: \<open>generateContent\<close> is a parameter that
  maps a request to a thrown error or a response, and \<open>process.env.API_KEY\<close> is a
  parameter too.
\<close>

record GenerateContentParameters =
  model :: js_string
  contents :: js_string
  config_systemInstruction :: js_string
  config_googleSearch :: bool
  config_thinkingBudget :: nat

record GenerateContentResponse =
  response_text :: "js_string option"

type_synonym transport = "GenerateContentParameters \<Rightarrow> exn + GenerateContentResponse"

definition discovery_request :: "js_string \<Rightarrow> ResearchConfig \<Rightarrow> GenerateContentParameters" where
  "discovery_request tpc config =
     \<lparr>model = js ''gemini-3-pro-preview'',
      contents = prompt tpc config,
      config_systemInstruction = systemInstruction config,
      config_googleSearch = True,
      config_thinkingBudget = 16000\<rparr>"

text \<open>
  \<open>researchTopic\<close>: the \<open>catch\<close> logs and rethrows, so every error raised inside the
  \<open>try\<close> is the error of the call. \<open>!text\<close> holds for an absent and for an empty text.
  The \<open>as ResearchResult\<close> is unchecked: the call returns whatever \<open>JSON.parse\<close> built.
\<close>

definition researchTopic ::
  "js_string option \<Rightarrow> transport \<Rightarrow> js_string \<Rightarrow> ResearchConfig \<Rightarrow> exn + json" where
  "researchTopic API_KEY generateContent tpc config =
     (if falsy API_KEY then Inl (Error (js ''API Key is missing''))
      else
        (case generateContent (discovery_request tpc config) of
           Inl e \<Rightarrow> Inl e
         | Inr response \<Rightarrow>
             (case response_text response of
                None \<Rightarrow> Inl (Error (js ''No response from Gemini''))
              | Some t \<Rightarrow>
                  if t = [] then Inl (Error (js ''No response from Gemini''))
                  else JSON_parse (cleanJson t))))"

definition review_request ::
  "ResearchResult \<Rightarrow> js_string \<Rightarrow> js_string \<Rightarrow> GenerateContentParameters" where
  "review_request res lang citationStyle =
     \<lparr>model = js ''gemini-3-pro-preview'',
      contents = review_prompt res lang citationStyle,
      config_systemInstruction = review_systemInstruction,
      config_googleSearch = False,
      config_thinkingBudget = 16000\<rparr>"

text \<open>\<open>generateLiteratureReview\<close>: \<open>response.text || "Failed to ..."\<close> is the result.\<close>

definition generateLiteratureReview ::
  "js_string option \<Rightarrow> transport \<Rightarrow> ResearchResult \<Rightarrow> js_string \<Rightarrow> js_string \<Rightarrow> exn + js_string" where
  "generateLiteratureReview API_KEY generateContent res lang citationStyle =
     (if falsy API_KEY then Inl (Error (js ''API Key is missing''))
      else
        (case generateContent (review_request res lang citationStyle) of
           Inl e \<Rightarrow> Inl e
         | Inr response \<Rightarrow>
             Inr (case response_text response of
                    None \<Rightarrow> js ''Failed to generate literature review.''
                  | Some t \<Rightarrow>
                      if t = [] then js ''Failed to generate literature review.'' else t)))"

section \<open>Context builder\<close>

definition context_entry :: "Article \<Rightarrow> nat \<Rightarrow> js_string" where
  \<open>context_entry a i =
     Number_toString (i + 1) @
     js ''. "'' @
     title a @
     js ''" ('' @
     publication_date a @
     js '') by '' @
     authors a @
     js ''. Journal: '' @
     (case journal a of None \<Rightarrow> js ''Unknown'' | Some j \<Rightarrow> if j = [] then js ''Unknown'' else j) @
     js ''. Significance: '' @
     significance a @
     js ''. Summary: '' @
     ai_summary a\<close>

definition contextString :: "ResearchResult \<Rightarrow> js_string" where
  \<open>contextString ctx =
     js ''
    TOPIC: '' @
     topic ctx @
     js ''
    
    SUMMARY:
    '' @
     summary ctx @
     js ''
    
    KEY ARTICLES (Foundational & Recent):
    '' @
     Array_join (Array_map context_entry (articles ctx)) NEWLINE @
     js ''
  ''\<close>

definition chat_systemInstruction :: "ResearchResult \<Rightarrow> js_string" where
  \<open>chat_systemInstruction ctx =
     js ''You are an intelligent research assistant helping a user explore the topic: "'' @
     topic ctx @
     js ''".
  You have access to the research summary and key articles listed below.
  Use this context to answer the user's questions in a helpful, academic, yet accessible manner.
  If the user asks about something not in the context, you can use your general knowledge but mention that it wasn't in the specific generated report.
  
  CONTEXT DATA:
  '' @
     contextString ctx @
     js ''
  ''\<close>

record ChatParameters =
  chat_model :: js_string
  chat_config_systemInstruction :: js_string

definition getResearchChatSession :: "js_string option \<Rightarrow> ResearchResult \<Rightarrow> exn + ChatParameters" where
  "getResearchChatSession API_KEY ctx =
     (if falsy API_KEY then Inl (Error (js ''API Key is missing''))
      else Inr \<lparr>chat_model = js ''gemini-3-pro-preview'',
                chat_config_systemInstruction = chat_systemInstruction ctx\<rparr>)"

section \<open>History store and the component state\<close>

record HistoryItem =
  h_id :: js_string
  h_timestamp :: nat
  h_topic :: js_string
  h_result :: json
  h_timelineImage :: "js_string option"
  h_literatureReview :: "js_string option"
  h_config :: ResearchConfig

text \<open>
  \<open>Partial<HistoryItem>\<close>: every field may be absent. The spread
  \<open>{ ...item, ...updates }\<close> takes a field from \<open>updates\<close> where it is present.
\<close>

record HistoryItemUpdates =
  u_id :: "js_string option"
  u_timestamp :: "nat option"
  u_topic :: "js_string option"
  u_result :: "json option"
  u_timelineImage :: "js_string option option"
  u_literatureReview :: "js_string option option"
  u_config :: "ResearchConfig option"

definition no_updates :: HistoryItemUpdates where
  "no_updates =
     \<lparr>u_id = None, u_timestamp = None, u_topic = None, u_result = None,
      u_timelineImage = None, u_literatureReview = None, u_config = None\<rparr>"

definition spread :: "HistoryItem \<Rightarrow> HistoryItemUpdates \<Rightarrow> HistoryItem" where
  "spread item updates =
     \<lparr>h_id = (case u_id updates of None \<Rightarrow> h_id item | Some v \<Rightarrow> v),
      h_timestamp = (case u_timestamp updates of None \<Rightarrow> h_timestamp item | Some v \<Rightarrow> v),
      h_topic = (case u_topic updates of None \<Rightarrow> h_topic item | Some v \<Rightarrow> v),
      h_result = (case u_result updates of None \<Rightarrow> h_result item | Some v \<Rightarrow> v),
      h_timelineImage =
        (case u_timelineImage updates of None \<Rightarrow> h_timelineImage item | Some v \<Rightarrow> v),
      h_literatureReview =
        (case u_literatureReview updates of None \<Rightarrow> h_literatureReview item | Some v \<Rightarrow> v),
      h_config = (case u_config updates of None \<Rightarrow> h_config item | Some v \<Rightarrow> v)\<rparr>"

text \<open>
  \<open>localStorage\<close> maps a key to the stored value; the value stored under the history
  key is \<open>JSON.stringify\<close> of the list and is represented by the list itself. Whether
  the store accepts a write is the environment's choice: \<open>accepts\<close> is a parameter, and
  a refused write throws.
\<close>

type_synonym storage = "js_string \<Rightarrow> HistoryItem list option"

definition setItem ::
  "(HistoryItem list \<Rightarrow> bool) \<Rightarrow> storage \<Rightarrow> js_string \<Rightarrow> HistoryItem list \<Rightarrow> exn + storage" where
  "setItem accepts store key v =
     (if accepts v then Inr (store(key \<mapsto> v)) else Inl QuotaExceededError)"

definition history_key :: js_string where
  "history_key = js ''deep_research_history''"

record AppState =
  query :: js_string
  isSearching :: bool
  result :: "json option"
  error :: "js_string option"
  config :: ResearchConfig
  showSettings :: bool
  timelineImage :: "js_string option"
  literatureReview :: "js_string option"
  historyOpen :: bool
  historyItems :: "HistoryItem list"
  currentResearchId :: "js_string option"
  localStorage :: storage

text \<open>
  A handler runs to its end or throws; the state updates made before a throw stay.
\<close>

datatype completion = Returned | Threw exn

definition saveToHistory ::
  "(HistoryItem list \<Rightarrow> bool) \<Rightarrow> AppState \<Rightarrow> HistoryItem \<Rightarrow> AppState \<times> completion" where
  "saveToHistory accepts st newItem =
     (let updatedHistory = take 15 (newItem # historyItems st);
          st1 = st\<lparr>historyItems := updatedHistory\<rparr>
      in case setItem accepts (localStorage st1) history_key updatedHistory of
           Inr store \<Rightarrow> (st1\<lparr>localStorage := store\<rparr>, Returned)
         | Inl e \<Rightarrow> (st1, Returned))"

definition updateHistoryItem ::
  "(HistoryItem list \<Rightarrow> bool) \<Rightarrow> AppState \<Rightarrow> js_string \<Rightarrow> HistoryItemUpdates \<Rightarrow> AppState \<times> completion" where
  "updateHistoryItem accepts st ident updates =
     (let updatedHistory =
            map (\<lambda>item. if h_id item = ident then spread item updates else item) (historyItems st);
          st1 = st\<lparr>historyItems := updatedHistory\<rparr>
      in case setItem accepts (localStorage st1) history_key updatedHistory of
           Inr store \<Rightarrow> (st1\<lparr>localStorage := store\<rparr>, Returned)
         | Inl e \<Rightarrow> (st1, Returned))"

text \<open>\<open>deleteHistoryItem\<close> writes outside any \<open>try\<close>.\<close>

definition deleteHistoryItem ::
  "(HistoryItem list \<Rightarrow> bool) \<Rightarrow> AppState \<Rightarrow> js_string \<Rightarrow> AppState \<times> completion" where
  "deleteHistoryItem accepts st ident =
     (let updatedHistory = filter (\<lambda>item. h_id item \<noteq> ident) (historyItems st);
          st1 = st\<lparr>historyItems := updatedHistory\<rparr>
      in case setItem accepts (localStorage st1) history_key updatedHistory of
           Inl e \<Rightarrow> (st1, Threw e)
         | Inr store \<Rightarrow>
             (let st2 = st1\<lparr>localStorage := store\<rparr>
              in if currentResearchId st2 = Some ident
                 then (st2\<lparr>result := None, timelineImage := None,
                            literatureReview := None, currentResearchId := None\<rparr>, Returned)
                 else (st2, Returned)))"

text \<open>
  \<open>handleSearch\<close>, with the two readings of \<open>Date.now()\<close> as parameters. The handler
  is one step: the state it reads after the \<open>await\<close> is the state it started from.
\<close>

definition handleSearch ::
  "js_string option \<Rightarrow> transport \<Rightarrow> (HistoryItem list \<Rightarrow> bool) \<Rightarrow> nat \<Rightarrow> nat \<Rightarrow> AppState \<Rightarrow> AppState" where
  "handleSearch API_KEY generateContent accepts now1 now2 st =
     (if trim (query st) = [] then st
      else
        (let st1 = st\<lparr>isSearching := True, error := None, result := None,
                       timelineImage := None, literatureReview := None,
                       showSettings := False, currentResearchId := None\<rparr>;
             failed = js ''Failed to research topic. Please check your API key and try again.'';
             st2 =
               (case researchTopic API_KEY generateContent (query st) (config st) of
                  Inl err \<Rightarrow> st1\<lparr>error := Some failed\<rparr>
                | Inr data \<Rightarrow>
                    (let newId = Number_toString now1;
                         newItem = \<lparr>h_id = newId, h_timestamp = now2, h_topic = query st,
                                    h_result = data, h_timelineImage = None,
                                    h_literatureReview = None, h_config = config st\<rparr>;
                         st' = st1\<lparr>result := Some data, currentResearchId := Some newId\<rparr>
                     in case saveToHistory accepts st' newItem of
                          (s, Returned) \<Rightarrow> s
                        | (s, Threw e) \<Rightarrow> s\<lparr>error := Some failed\<rparr>))
         in st2\<lparr>isSearching := False\<rparr>))"

text \<open>\<open>if (currentResearchId)\<close>: neither \<open>null\<close> nor the empty string.\<close>

definition handleTimelineGenerated ::
  "(HistoryItem list \<Rightarrow> bool) \<Rightarrow> AppState \<Rightarrow> js_string \<Rightarrow> AppState \<times> completion" where
  "handleTimelineGenerated accepts st u =
     (let st1 = st\<lparr>timelineImage := Some u\<rparr>
      in case currentResearchId st1 of
           None \<Rightarrow> (st1, Returned)
         | Some ident \<Rightarrow>
             if ident = [] then (st1, Returned)
             else updateHistoryItem accepts st1 ident
                    (no_updates\<lparr>u_timelineImage := Some (Some u)\<rparr>))"

definition handleReviewGenerated ::
  "(HistoryItem list \<Rightarrow> bool) \<Rightarrow> AppState \<Rightarrow> js_string \<Rightarrow> AppState \<times> completion" where
  "handleReviewGenerated accepts st review =
     (let st1 = st\<lparr>literatureReview := Some review\<rparr>
      in case currentResearchId st1 of
           None \<Rightarrow> (st1, Returned)
         | Some ident \<Rightarrow>
             if ident = [] then (st1, Returned)
             else updateHistoryItem accepts st1 ident
                    (no_updates\<lparr>u_literatureReview := Some (Some review)\<rparr>))"

section \<open>Initial state and sample environments\<close>

text \<open>The initial values of the component's \<open>useState\<close> calls, over an empty store.\<close>

definition initial_config :: ResearchConfig where
  "initial_config = \<lparr>focus = js ''balanced'', count = 10, language = js ''en''\<rparr>"

definition initial_state :: AppState where
  "initial_state =
     \<lparr>query = [], isSearching = False, result = None, error = None,
      config = initial_config, showSettings = False, timelineImage = None,
      literatureReview = None, historyOpen = False, historyItems = [],
      currentResearchId = None, localStorage = Map.empty\<rparr>"

text \<open>A transport that answers every request with the given text, and one that throws.\<close>

definition reply_text :: "js_string option \<Rightarrow> transport" where
  "reply_text t request = Inr \<lparr>response_text = t\<rparr>"

definition reply_failure :: "js_string \<Rightarrow> transport" where
  "reply_failure msg request = Inl (TransportFailure msg)"

text \<open>A store that takes every write, and one whose quota is used up.\<close>

definition accepts_all :: "HistoryItem list \<Rightarrow> bool" where
  "accepts_all v \<longleftrightarrow> True"

definition accepts_none :: "HistoryItem list \<Rightarrow> bool" where
  "accepts_none v \<longleftrightarrow> False"

definition sample_item :: "js_string \<Rightarrow> HistoryItem" where
  "sample_item ident =
     \<lparr>h_id = ident, h_timestamp = 0, h_topic = js ''CRISPR'', h_result = JObject [],
      h_timelineImage = None, h_literatureReview = None, h_config = initial_config\<rparr>"


definition sample_result :: "Article list \<Rightarrow> ResearchResult" where
  "sample_result as =
     \<lparr>topic = js ''CRISPR'', summary = js ''From bacteria to editing'',
      suggestedVisualPrompt = js ''A timeline'', articles = as\<rparr>"

section \<open>Properties of the string helpers\<close>

lemma indexOf_range: "indexOf s c = -1 \<or> (0 \<le> indexOf s c \<and> indexOf s c < int (length s))"
  by (induction s) (auto simp: Let_def)

lemma indexOf_first: "c \<notin> set pre \<Longrightarrow> indexOf (pre @ c # rest) c = int (length pre)"
  by (induction pre) (auto simp: Let_def)

lemma lastIndexOf_range:
  "lastIndexOf s c = -1 \<or> (0 \<le> lastIndexOf s c \<and> lastIndexOf s c < int (length s))"
  by (induction s) (auto simp: Let_def)

lemma lastIndexOf_notin: "c \<notin> set s \<Longrightarrow> lastIndexOf s c = -1"
  by (induction s) (auto simp: Let_def)

lemma lastIndexOf_last:
  "c \<notin> set post \<Longrightarrow> lastIndexOf (pre @ c # post) c = int (length pre)"
  by (induction pre) (auto simp: Let_def lastIndexOf_notin)

lemma indexOf_nth: "0 \<le> indexOf s c \<Longrightarrow> s ! nat (indexOf s c) = c"
proof (induction s)
  case Nil
  then show ?case by simp
next
  case (Cons x xs)
  show ?case
  proof (cases "x = c")
    case True
    then show ?thesis by simp
  next
    case False
    with Cons.prems have ne: "indexOf xs c \<noteq> -1"
      by (auto simp: Let_def split: if_splits)
    with indexOf_range[of xs c] have nn: "0 \<le> indexOf xs c" by auto
    with Cons.IH have "xs ! nat (indexOf xs c) = c" by simp
    with False nn ne show ?thesis
      by (simp add: Let_def nat_add_distrib)
  qed
qed

lemma lastIndexOf_nth: "0 \<le> lastIndexOf s c \<Longrightarrow> s ! nat (lastIndexOf s c) = c"
proof (induction s)
  case Nil
  then show ?case by simp
next
  case (Cons x xs)
  show ?case
  proof (cases "lastIndexOf xs c = -1")
    case True
    with Cons.prems show ?thesis by (auto simp: Let_def split: if_splits)
  next
    case False
    with lastIndexOf_range[of xs c] have nn: "0 \<le> lastIndexOf xs c" by auto
    with Cons.IH have "xs ! nat (lastIndexOf xs c) = c" by simp
    with False nn show ?thesis
      by (simp add: Let_def nat_add_distrib)
  qed
qed

lemma substring_middle:
  "substring (pre @ mid @ post) (int (length pre)) (int (length pre + length mid)) = mid"
  by (simp add: substring_def Let_def min_def max_def)

lemma brace_neq: "LBRACE \<noteq> RBRACE"
  by (simp add: LBRACE_def RBRACE_def)

lemma cleanJson_span:
  assumes "LBRACE \<notin> set pre" "RBRACE \<notin> set post"
  shows "cleanJson (pre @ LBRACE # mid @ RBRACE # post) = LBRACE # mid @ [RBRACE]"
proof -
  let ?t = "pre @ LBRACE # mid @ RBRACE # post"
  have s: "indexOf ?t LBRACE = int (length pre)"
    using assms(1) by (rule indexOf_first)
  have "lastIndexOf ((pre @ LBRACE # mid) @ RBRACE # post) RBRACE = int (length (pre @ LBRACE # mid))"
    using assms(2) by (rule lastIndexOf_last)
  then have e: "lastIndexOf ?t RBRACE = int (length pre + length mid + 1)"
    by simp
  have "substring (pre @ (LBRACE # mid @ [RBRACE]) @ post) (int (length pre))
          (int (length pre + length (LBRACE # mid @ [RBRACE]))) = LBRACE # mid @ [RBRACE]"
    by (rule substring_middle)
  then have sub: "substring ?t (int (length pre)) (int (length pre + length mid + 1) + 1)
      = LBRACE # mid @ [RBRACE]"
    by (simp add: add.commute add.left_commute)
  show ?thesis
    unfolding cleanJson_def s e Let_def using sub by simp
qed

lemma split_at_two:
  assumes "i < j" "j < length (t :: 'a list)"
  shows "t = take i t @ t ! i # take (j - Suc i) (drop (Suc i) t) @ t ! j # drop (Suc j) t"
proof -
  let ?r = "drop (Suc i) t"
  let ?k = "j - Suc i"
  have 1: "t = take i t @ t ! i # ?r"
    using assms by (simp add: id_take_nth_drop)
  have kl: "?k < length ?r" using assms by simp
  have kn: "?r ! ?k = t ! j" using assms by simp
  have "?r = take ?k ?r @ ?r ! ?k # drop (Suc ?k) ?r"
    using kl by (rule id_take_nth_drop)
  also have "drop (Suc ?k) ?r = drop (Suc j) t" using assms by simp
  finally have 2: "?r = take ?k ?r @ t ! j # drop (Suc j) t" using kn by simp
  show ?thesis using 1 2 by metis
qed

lemma cleanJson_fallback:
  assumes "\<nexists>pre mid post. t = pre @ LBRACE # mid @ RBRACE # post"
  shows "cleanJson t = trim t"
proof -
  let ?i = "indexOf t LBRACE" and ?j = "lastIndexOf t RBRACE"
  have "?i = -1 \<or> ?j = -1 \<or> ?i > ?j"
  proof (rule ccontr)
    assume "\<not> ?thesis"
    then have i: "0 \<le> ?i" "?i < int (length t)" and j: "0 \<le> ?j" "?j < int (length t)"
      and le: "?i \<le> ?j"
      using indexOf_range[of t LBRACE] lastIndexOf_range[of t RBRACE] by auto
    have ni: "t ! nat ?i = LBRACE" using i(1) by (rule indexOf_nth)
    have nj: "t ! nat ?j = RBRACE" using j(1) by (rule lastIndexOf_nth)
    have "?i \<noteq> ?j" using ni nj brace_neq by auto
    then have lt: "nat ?i < nat ?j" using le i j by auto
    have jl: "nat ?j < length t" using j by auto
    from split_at_two[OF lt jl] ni nj
    have "t = take (nat ?i) t @ LBRACE # take (nat ?j - Suc (nat ?i)) (drop (Suc (nat ?i)) t)
                @ RBRACE # drop (Suc (nat ?j)) t"
      by simp
    with assms show False by blast
  qed
  then show ?thesis by (auto simp: cleanJson_def Let_def)
qed

text \<open>
  A \<open>{\<close> followed somewhere by a \<open>}\<close> gives the span from the first \<open>{\<close> to the last \<open>}\<close>.
\<close>

lemma brace_span_exists:
  assumes "t = p @ LBRACE # m @ RBRACE # q"
  shows "\<exists>pre mid post. t = pre @ LBRACE # mid @ RBRACE # post
           \<and> LBRACE \<notin> set pre \<and> RBRACE \<notin> set post"
proof -
  have "LBRACE \<in> set t" using assms by simp
  then obtain pre r where pr: "t = pre @ LBRACE # r" "LBRACE \<notin> set pre"
    by (meson split_list_first)
  have le: "length pre \<le> length p"
  proof (rule ccontr)
    assume "\<not> length pre \<le> length p"
    then have lt: "length p < length pre" by simp
    then have "t ! length p = pre ! length p" using pr(1) by (simp add: nth_append)
    moreover have "t ! length p = LBRACE" using assms by simp
    ultimately have "LBRACE \<in> set pre" using lt by (metis nth_mem)
    with pr(2) show False by contradiction
  qed
  have "r = drop (Suc (length pre)) t" using pr(1) by simp
  moreover have "m @ RBRACE # q = drop (Suc (length p)) t" using assms by simp
  moreover have "set (drop (Suc (length p)) t) \<subseteq> set (drop (Suc (length pre)) t)"
    using le by (simp add: set_drop_subset_set_drop)
  ultimately have "RBRACE \<in> set r" by (metis in_set_conv_decomp subsetD)
  then obtain mid post where "r = mid @ RBRACE # post" "RBRACE \<notin> set post"
    by (meson split_list_last)
  with pr show ?thesis by blast
qed

lemma researchTopic_text:
  assumes "\<not> falsy API_KEY"
    and "generateContent (discovery_request tpc cfg) = Inr response"
    and "response_text response = Some t" and "t \<noteq> []"
  shows "researchTopic API_KEY generateContent tpc cfg = JSON_parse (cleanJson t)"
  using assms by (auto simp: researchTopic_def falsy_def)

section \<open>Structured-output recovery\<close>

text \<open>
  C1 (as amended). Let the discovery call reach its recovery step with the response text
  \<open>t\<close>. If \<open>t\<close> holds a \<open>{\<close> that is followed somewhere by a \<open>}\<close>, the call returns what
  \<open>JSON.parse\<close> makes of exactly the span from the first \<open>{\<close> to the last \<open>}\<close>, both
  included: prose before it, commentary after it and a markdown fence around it are
  dropped. If \<open>t\<close> is not empty and holds no \<open>{\<close> followed by a \<open>}\<close> (no \<open>{\<close>, no \<open>}\<close>, or
  the first \<open>{\<close> after the last \<open>}\<close>), the call returns what \<open>JSON.parse\<close> makes of the whole
  trimmed text: a SyntaxError for prose, a value when the trimmed text is itself JSON.
  The two cases cover every non-empty text (\<open>brace_span_exists\<close>).
\<close>

theorem recovery_brace_bounded:
  assumes "\<not> falsy API_KEY"
    and "generateContent (discovery_request tpc cfg) = Inr response"
    and "response_text response = Some t"
  shows "(\<forall>pre mid post.
            t = pre @ LBRACE # mid @ RBRACE # post \<and> LBRACE \<notin> set pre \<and> RBRACE \<notin> set post \<longrightarrow>
            researchTopic API_KEY generateContent tpc cfg = JSON_parse (LBRACE # mid @ [RBRACE]))
       \<and> (t \<noteq> [] \<and> (\<nexists>pre mid post. t = pre @ LBRACE # mid @ RBRACE # post) \<longrightarrow>
            researchTopic API_KEY generateContent tpc cfg = JSON_parse (trim t))"
proof (intro conjI allI impI)
  fix pre mid post
  assume h: "t = pre @ LBRACE # mid @ RBRACE # post \<and> LBRACE \<notin> set pre \<and> RBRACE \<notin> set post"
  then have "t \<noteq> []" by auto
  with assms have "researchTopic API_KEY generateContent tpc cfg = JSON_parse (cleanJson t)"
    by (rule researchTopic_text)
  with h show "researchTopic API_KEY generateContent tpc cfg = JSON_parse (LBRACE # mid @ [RBRACE])"
    by (simp add: cleanJson_span)
next
  assume h: "t \<noteq> [] \<and> (\<nexists>pre mid post. t = pre @ LBRACE # mid @ RBRACE # post)"
  with assms have "researchTopic API_KEY generateContent tpc cfg = JSON_parse (cleanJson t)"
    using researchTopic_text by blast
  with h show "researchTopic API_KEY generateContent tpc cfg = JSON_parse (trim t)"
    by (simp add: cleanJson_fallback)
qed

text \<open>
  The theorem at two responses: JSON wrapped in prose is recovered, and prose without
  braces fails with a SyntaxError.
\<close>

theorem recovery_brace_bounded_witness:
  \<open>researchTopic (Some (js ''key'')) (reply_text (Some (js ''Sure! {"topic":"CRISPR"} Done.'')))
      (js ''CRISPR'') initial_config
    = Inr (JObject [(js ''topic'', JString (js ''CRISPR''))])
   \<and> researchTopic (Some (js ''key'')) (reply_text (Some (js ''I cannot help.'')))
      (js ''CRISPR'') initial_config
    = Inl SyntaxError\<close>
proof -
  let ?K = "Some (js ''key'')"
  have k: "\<not> falsy ?K" by (simp add: falsy_def js_def)
  let ?t1 = \<open>js ''Sure! {"topic":"CRISPR"} Done.''\<close>
  have g1: "reply_text (Some ?t1) (discovery_request (js ''CRISPR'') initial_config)
      = Inr \<lparr>response_text = Some ?t1\<rparr>"
    by (simp add: reply_text_def)
  have r1: "response_text \<lparr>response_text = Some ?t1\<rparr> = Some ?t1" by simp
  have d1: \<open>?t1 = js ''Sure! '' @ LBRACE # js ''"topic":"CRISPR"'' @ RBRACE # js '' Done.''
      \<and> LBRACE \<notin> set (js ''Sure! '') \<and> RBRACE \<notin> set (js '' Done.'')\<close>
    by (simp add: js_def LBRACE_def RBRACE_def)
  have p1: \<open>JSON_parse (LBRACE # js ''"topic":"CRISPR"'' @ [RBRACE])
      = Inr (JObject [(js ''topic'', JString (js ''CRISPR''))])\<close>
    by code_simp
  have 1: "researchTopic ?K (reply_text (Some ?t1)) (js ''CRISPR'') initial_config
      = Inr (JObject [(js ''topic'', JString (js ''CRISPR''))])"
    using recovery_brace_bounded[of ?K "reply_text (Some ?t1)" "js ''CRISPR''" initial_config
        "\<lparr>response_text = Some ?t1\<rparr>" ?t1, OF k g1 r1] d1 p1 by metis
  let ?t2 = "js ''I cannot help.''"
  have g2: "reply_text (Some ?t2) (discovery_request (js ''CRISPR'') initial_config)
      = Inr \<lparr>response_text = Some ?t2\<rparr>"
    by (simp add: reply_text_def)
  have r2: "response_text \<lparr>response_text = Some ?t2\<rparr> = Some ?t2" by simp
  have n2: "LBRACE \<notin> set ?t2" by (simp add: js_def LBRACE_def)
  have d2: "?t2 \<noteq> [] \<and> (\<nexists>pre mid post. ?t2 = pre @ LBRACE # mid @ RBRACE # post)"
  proof
    show "?t2 \<noteq> []" by (simp add: js_def)
    show "\<nexists>pre mid post. ?t2 = pre @ LBRACE # mid @ RBRACE # post"
    proof
      assume "\<exists>pre mid post. ?t2 = pre @ LBRACE # mid @ RBRACE # post"
      then obtain pre mid post where "?t2 = pre @ LBRACE # mid @ RBRACE # post" by blast
      then have "LBRACE \<in> set ?t2" by (metis in_set_conv_decomp)
      with n2 show False by contradiction
    qed
  qed
  have p2: "JSON_parse (trim ?t2) = Inl SyntaxError"
    by code_simp
  have 2: "researchTopic ?K (reply_text (Some ?t2)) (js ''CRISPR'') initial_config = Inl SyntaxError"
    using recovery_brace_bounded[of ?K "reply_text (Some ?t2)" "js ''CRISPR''" initial_config
        "\<lparr>response_text = Some ?t2\<rparr>" ?t2, OF k g2 r2] d2 p2 by metis
  show ?thesis using 1 2 by (rule conjI)
qed

text \<open>
  C1 as stated fails: the response \<open>42\<close> holds no \<open>{\<close>, and the discovery call returns
  the number instead of failing.
\<close>

theorem recovery_no_brace_counterexample:
  "LBRACE \<notin> set (js ''42'')
   \<and> researchTopic (Some (js ''key'')) (reply_text (Some (js ''42''))) (js ''CRISPR'') initial_config
     = Inr (JNumber (js ''42''))"
proof -
  have "JSON_parse (cleanJson (js ''42'')) = Inr (JNumber (js ''42''))"
    by code_simp
  then show ?thesis
    by (simp add: researchTopic_def falsy_def reply_text_def) (simp add: js_def LBRACE_def)
qed

section \<open>History store\<close>

lemma saveToHistory_items:
  "historyItems (fst (saveToHistory accepts st newItem)) = take 15 (newItem # historyItems st)"
  by (simp add: saveToHistory_def Let_def setItem_def)

lemma saveToHistory_never_throws: "snd (saveToHistory accepts st newItem) = Returned"
  by (simp add: saveToHistory_def Let_def setItem_def)

lemma updateHistoryItem_items:
  "historyItems (fst (updateHistoryItem accepts st ident updates))
     = map (\<lambda>item. if h_id item = ident then spread item updates else item) (historyItems st)"
  by (simp add: updateHistoryItem_def Let_def setItem_def)

lemma updateHistoryItem_never_throws: "snd (updateHistoryItem accepts st ident updates) = Returned"
  by (simp add: updateHistoryItem_def Let_def setItem_def)

lemma deleteHistoryItem_items:
  "historyItems (fst (deleteHistoryItem accepts st ident))
     = filter (\<lambda>item. h_id item \<noteq> ident) (historyItems st)"
  by (simp add: deleteHistoryItem_def Let_def setItem_def)

lemma deleteHistoryItem_accepted:
  assumes "accepts (filter (\<lambda>item. h_id item \<noteq> ident) (historyItems st))"
  shows "deleteHistoryItem accepts st ident =
     (if currentResearchId st = Some ident
      then (st\<lparr>historyItems := filter (\<lambda>item. h_id item \<noteq> ident) (historyItems st),
               localStorage := (localStorage st)
                 (history_key \<mapsto> filter (\<lambda>item. h_id item \<noteq> ident) (historyItems st)),
               result := None, timelineImage := None, literatureReview := None,
               currentResearchId := None\<rparr>, Returned)
      else (st\<lparr>historyItems := filter (\<lambda>item. h_id item \<noteq> ident) (historyItems st),
               localStorage := (localStorage st)
                 (history_key \<mapsto> filter (\<lambda>item. h_id item \<noteq> ident) (historyItems st))\<rparr>,
            Returned))"
  using assms by (simp add: deleteHistoryItem_def Let_def setItem_def)

lemma deleteHistoryItem_refused:
  assumes "\<not> accepts (filter (\<lambda>item. h_id item \<noteq> ident) (historyItems st))"
  shows "deleteHistoryItem accepts st ident =
     (st\<lparr>historyItems := filter (\<lambda>item. h_id item \<noteq> ident) (historyItems st)\<rparr>,
      Threw QuotaExceededError)"
  using assms by (simp add: deleteHistoryItem_def Let_def setItem_def)

text \<open>
  C2. Saving a session makes it the first entry and keeps the first 14 prior sessions behind
  it in their order, so the new list has \<open>min (n + 1) 15\<close> entries; when the store held 15
  sessions, the last one is dropped and the count stays 15.
\<close>

theorem saveToHistory_capacity:
  "historyItems (fst (saveToHistory accepts st newItem)) = newItem # take 14 (historyItems st)
   \<and> length (historyItems (fst (saveToHistory accepts st newItem)))
       = min (length (historyItems st) + 1) 15
   \<and> (length (historyItems st) = 15 \<longrightarrow>
        historyItems (fst (saveToHistory accepts st newItem)) = newItem # butlast (historyItems st)
        \<and> length (historyItems (fst (saveToHistory accepts st newItem))) = 15)"
proof -
  have t: "take 15 (newItem # historyItems st) = newItem # take 14 (historyItems st)"
    by (simp add: take_Cons')
  have b: "length (historyItems st) = 15 \<Longrightarrow> take 14 (historyItems st) = butlast (historyItems st)"
    by (simp add: butlast_conv_take)
  show ?thesis
    unfolding saveToHistory_items t using b by auto
qed

text \<open>The theorem on a full store: the oldest session is the one that is evicted.\<close>

theorem saveToHistory_capacity_witness:
  "length (historyItems
        (initial_state\<lparr>historyItems := replicate 14 (sample_item (js ''1'')) @ [sample_item (js ''0'')]\<rparr>)) = 15
   \<and> historyItems (fst (saveToHistory accepts_all
        (initial_state\<lparr>historyItems := replicate 14 (sample_item (js ''1'')) @ [sample_item (js ''0'')]\<rparr>)
        (sample_item (js ''2''))))
     = sample_item (js ''2'') # replicate 14 (sample_item (js ''1''))"
proof -
  let ?st = "initial_state\<lparr>historyItems := replicate 14 (sample_item (js ''1'')) @ [sample_item (js ''0'')]\<rparr>"
  have l: "length (historyItems ?st) = 15" by simp
  have "historyItems (fst (saveToHistory accepts_all ?st (sample_item (js ''2''))))
      = sample_item (js ''2'') # butlast (historyItems ?st)"
    using saveToHistory_capacity[of accepts_all ?st "sample_item (js ''2'')"] l by blast
  with l show ?thesis by simp
qed

lemma spread_timelineImage:
  "spread item (no_updates\<lparr>u_timelineImage := Some (Some u)\<rparr>) = item\<lparr>h_timelineImage := Some u\<rparr>"
  by (simp add: spread_def no_updates_def)

lemma spread_literatureReview:
  "spread item (no_updates\<lparr>u_literatureReview := Some (Some r)\<rparr>) = item\<lparr>h_literatureReview := Some r\<rparr>"
  by (simp add: spread_def no_updates_def)

text \<open>
  C4. Attaching a timeline image or a literature review keeps the length of the list and
  changes, at every position, nothing but that field of the sessions carrying the addressed
  id: id, timestamp, topic, config and discovery result stay, and every other session stays
  as it is, in place. The two handlers make exactly these updates for the active session.
\<close>

theorem updateHistoryItem_frame:
  "length (historyItems (fst (updateHistoryItem accepts st ident (no_updates\<lparr>u_timelineImage := Some (Some u)\<rparr>))))
     = length (historyItems st)
   \<and> length (historyItems (fst (updateHistoryItem accepts st ident (no_updates\<lparr>u_literatureReview := Some (Some r)\<rparr>))))
     = length (historyItems st)
   \<and> (\<forall>k < length (historyItems st).
        historyItems (fst (updateHistoryItem accepts st ident (no_updates\<lparr>u_timelineImage := Some (Some u)\<rparr>))) ! k
          = (if h_id (historyItems st ! k) = ident
             then (historyItems st ! k)\<lparr>h_timelineImage := Some u\<rparr>
             else historyItems st ! k)
        \<and> historyItems (fst (updateHistoryItem accepts st ident (no_updates\<lparr>u_literatureReview := Some (Some r)\<rparr>))) ! k
          = (if h_id (historyItems st ! k) = ident
             then (historyItems st ! k)\<lparr>h_literatureReview := Some r\<rparr>
             else historyItems st ! k))
   \<and> (\<forall>upd \<in> {no_updates\<lparr>u_timelineImage := Some (Some u)\<rparr>,
                  no_updates\<lparr>u_literatureReview := Some (Some r)\<rparr>}.
        \<forall>k < length (historyItems st).
          h_id (historyItems (fst (updateHistoryItem accepts st ident upd)) ! k) = h_id (historyItems st ! k)
          \<and> h_timestamp (historyItems (fst (updateHistoryItem accepts st ident upd)) ! k)
              = h_timestamp (historyItems st ! k)
          \<and> h_topic (historyItems (fst (updateHistoryItem accepts st ident upd)) ! k)
              = h_topic (historyItems st ! k)
          \<and> h_config (historyItems (fst (updateHistoryItem accepts st ident upd)) ! k)
              = h_config (historyItems st ! k)
          \<and> h_result (historyItems (fst (updateHistoryItem accepts st ident upd)) ! k)
              = h_result (historyItems st ! k))
   \<and> (currentResearchId st = Some ident \<and> ident \<noteq> [] \<longrightarrow>
        handleTimelineGenerated accepts st u
          = updateHistoryItem accepts (st\<lparr>timelineImage := Some u\<rparr>) ident
              (no_updates\<lparr>u_timelineImage := Some (Some u)\<rparr>)
        \<and> handleReviewGenerated accepts st r
          = updateHistoryItem accepts (st\<lparr>literatureReview := Some r\<rparr>) ident
              (no_updates\<lparr>u_literatureReview := Some (Some r)\<rparr>))"
  by (auto simp: updateHistoryItem_items spread_timelineImage spread_literatureReview
        handleTimelineGenerated_def handleReviewGenerated_def falsy_def Let_def)

text \<open>The theorem on a store of two sessions with the second one active.\<close>

theorem updateHistoryItem_frame_witness:
  "historyItems (fst (handleTimelineGenerated accepts_all
      (initial_state\<lparr>historyItems := [sample_item (js ''2''), sample_item (js ''1'')],
                      currentResearchId := Some (js ''1'')\<rparr>) (js ''data:image/png;base64,AAAA'')))
   = [sample_item (js ''2''),
      (sample_item (js ''1''))\<lparr>h_timelineImage := Some (js ''data:image/png;base64,AAAA'')\<rparr>]"
proof -
  let ?u = "js ''data:image/png;base64,AAAA''"
  let ?st = "initial_state\<lparr>historyItems := [sample_item (js ''2''), sample_item (js ''1'')],
                      currentResearchId := Some (js ''1'')\<rparr>"
  let ?st1 = "?st\<lparr>timelineImage := Some ?u\<rparr>"
  let ?upd = "no_updates\<lparr>u_timelineImage := Some (Some ?u)\<rparr>"
  have ne: "js ''1'' \<noteq> js ''2''" "js ''1'' \<noteq> []" by (simp_all add: js_def)
  have cur: "currentResearchId ?st = Some (js ''1'') \<and> js ''1'' \<noteq> []"
    using ne by simp
  have h: "handleTimelineGenerated accepts_all ?st ?u = updateHistoryItem accepts_all ?st1 (js ''1'') ?upd"
    using updateHistoryItem_frame[of accepts_all ?st "js ''1''" ?u "[]"] cur by blast
  have items: "historyItems ?st1 = [sample_item (js ''2''), sample_item (js ''1'')]" by simp
  let ?new = "historyItems (fst (updateHistoryItem accepts_all ?st1 (js ''1'') ?upd))"
  have len: "length ?new = 2"
    using updateHistoryItem_frame[of accepts_all ?st1 "js ''1''" ?u "[]"] items by simp
  have n0: "?new ! 0 = sample_item (js ''2'')"
    using updateHistoryItem_frame[of accepts_all ?st1 "js ''1''" ?u "[]"] items ne
    by (simp add: sample_item_def)
  have n1: "?new ! 1 = (sample_item (js ''1''))\<lparr>h_timelineImage := Some ?u\<rparr>"
    using updateHistoryItem_frame[of accepts_all ?st1 "js ''1''" ?u "[]"] items ne
    by (simp add: sample_item_def)
  have "?new = [?new ! 0, ?new ! 1]"
    using len by (cases ?new; cases "tl ?new"; auto)
  with n0 n1 h show ?thesis by simp
qed

text \<open>
  C10. Updating an id that no session carries leaves the list as it is and returns
  normally; the persisted list is either rewritten with the same sessions or, when the
  write is refused, left alone.
\<close>

theorem updateHistoryItem_unknown_id:
  assumes "ident \<notin> h_id ` set (historyItems st)"
  shows "historyItems (fst (updateHistoryItem accepts st ident updates)) = historyItems st
       \<and> snd (updateHistoryItem accepts st ident updates) = Returned
       \<and> (\<forall>k. k \<noteq> history_key \<longrightarrow>
             localStorage (fst (updateHistoryItem accepts st ident updates)) k = localStorage st k)
       \<and> (localStorage (fst (updateHistoryItem accepts st ident updates)) history_key
             = Some (historyItems st)
           \<or> localStorage (fst (updateHistoryItem accepts st ident updates)) history_key
             = localStorage st history_key)"
proof -
  have m: "map (\<lambda>item. if h_id item = ident then spread item updates else item) (historyItems st)
      = historyItems st"
  proof (rule map_idI)
    fix x
    assume "x \<in> set (historyItems st)"
    with assms have "h_id x \<noteq> ident" by auto
    then show "(if h_id x = ident then spread x updates else x) = x" by simp
  qed
  show ?thesis
    using m by (simp add: updateHistoryItem_def Let_def setItem_def)
qed

text \<open>The theorem at an id absent from a store of two sessions.\<close>

theorem updateHistoryItem_unknown_id_witness:
  "js ''9'' \<notin> h_id ` set [sample_item (js ''2''), sample_item (js ''1'')]
   \<and> historyItems (fst (updateHistoryItem accepts_all
        (initial_state\<lparr>historyItems := [sample_item (js ''2''), sample_item (js ''1'')]\<rparr>)
        (js ''9'') (no_updates\<lparr>u_timelineImage := Some (Some (js ''data:''))\<rparr>)))
     = [sample_item (js ''2''), sample_item (js ''1'')]"
proof -
  let ?st = "initial_state\<lparr>historyItems := [sample_item (js ''2''), sample_item (js ''1'')]\<rparr>"
  have n: "js ''9'' \<notin> h_id ` set [sample_item (js ''2''), sample_item (js ''1'')]"
    by (simp add: sample_item_def js_def)
  then have "js ''9'' \<notin> h_id ` set (historyItems ?st)" by simp
  from updateHistoryItem_unknown_id[OF this] n show ?thesis by simp
qed

section \<open>Persistence failures\<close>

text \<open>
  C3. On a store that refuses the write, creating and updating a session return normally
  (\<open>saveToHistory_never_throws\<close>, \<open>updateHistoryItem_never_throws\<close> for every state), but
  deleting a session throws the store's error to the caller: \<open>deleteHistoryItem\<close> calls
  \<open>setItem\<close> outside any \<open>try\<close>.
\<close>

theorem deleteHistoryItem_write_failure_propagates:
  "snd (deleteHistoryItem accepts_none
          (initial_state\<lparr>historyItems := [sample_item (js ''2''), sample_item (js ''1'')]\<rparr>)
          (js ''1''))
     = Threw QuotaExceededError
   \<and> snd (saveToHistory accepts_none
          (initial_state\<lparr>historyItems := [sample_item (js ''2''), sample_item (js ''1'')]\<rparr>)
          (sample_item (js ''3'')))
     = Returned
   \<and> snd (updateHistoryItem accepts_none
          (initial_state\<lparr>historyItems := [sample_item (js ''2''), sample_item (js ''1'')]\<rparr>)
          (js ''1'') (no_updates\<lparr>u_timelineImage := Some (Some (js ''data:''))\<rparr>))
     = Returned"
  by (simp add: deleteHistoryItem_refused accepts_none_def saveToHistory_never_throws
        updateHistoryItem_never_throws)

text \<open>
  C8. Deleting the active session on a store that refuses the write removes the session
  from the list, but the throw of \<open>setItem\<close> ends the handler before the view state is
  cleared: result, timeline image and active id stay as they were. When the write is
  accepted the view state is cleared for the active id and untouched otherwise
  (\<open>deleteHistoryItem_view_state\<close>), and the list is the filtered one in either case
  (\<open>deleteHistoryItem_items\<close>).
\<close>

theorem deleteHistoryItem_active_not_cleared:
  "currentResearchId
     (fst (deleteHistoryItem accepts_none
        (initial_state\<lparr>historyItems := [sample_item (js ''1'')], result := Some (JObject []),
                        timelineImage := Some (js ''data:''),
                        currentResearchId := Some (js ''1'')\<rparr>)
        (js ''1'')))
     = Some (js ''1'')
   \<and> result
     (fst (deleteHistoryItem accepts_none
        (initial_state\<lparr>historyItems := [sample_item (js ''1'')], result := Some (JObject []),
                        timelineImage := Some (js ''data:''),
                        currentResearchId := Some (js ''1'')\<rparr>)
        (js ''1'')))
     = Some (JObject [])
   \<and> timelineImage
     (fst (deleteHistoryItem accepts_none
        (initial_state\<lparr>historyItems := [sample_item (js ''1'')], result := Some (JObject []),
                        timelineImage := Some (js ''data:''),
                        currentResearchId := Some (js ''1'')\<rparr>)
        (js ''1'')))
     = Some (js ''data:'')
   \<and> historyItems
     (fst (deleteHistoryItem accepts_none
        (initial_state\<lparr>historyItems := [sample_item (js ''1'')], result := Some (JObject []),
                        timelineImage := Some (js ''data:''),
                        currentResearchId := Some (js ''1'')\<rparr>)
        (js ''1'')))
     = []"
  by (simp add: deleteHistoryItem_refused accepts_none_def sample_item_def)

lemma deleteHistoryItem_view_state:
  assumes "accepts (filter (\<lambda>item. h_id item \<noteq> ident) (historyItems st))"
  shows "(currentResearchId st = Some ident \<longrightarrow>
            result (fst (deleteHistoryItem accepts st ident)) = None
            \<and> timelineImage (fst (deleteHistoryItem accepts st ident)) = None
            \<and> literatureReview (fst (deleteHistoryItem accepts st ident)) = None
            \<and> currentResearchId (fst (deleteHistoryItem accepts st ident)) = None)
       \<and> (currentResearchId st \<noteq> Some ident \<longrightarrow>
            result (fst (deleteHistoryItem accepts st ident)) = result st
            \<and> timelineImage (fst (deleteHistoryItem accepts st ident)) = timelineImage st
            \<and> literatureReview (fst (deleteHistoryItem accepts st ident)) = literatureReview st
            \<and> currentResearchId (fst (deleteHistoryItem accepts st ident)) = currentResearchId st)
       \<and> snd (deleteHistoryItem accepts st ident) = Returned"
  using assms by (simp add: deleteHistoryItem_accepted)

section \<open>Discovery stage\<close>

text \<open>
  The discovery call fails exactly for a missing credential, an error thrown by the
  transport, a response without text, or a text whose candidate does not parse.
\<close>

lemma researchTopic_failure_causes:
  "(\<exists>e. researchTopic API_KEY generateContent tpc cfg = Inl e) \<longleftrightarrow>
     falsy API_KEY
     \<or> (\<exists>e. generateContent (discovery_request tpc cfg) = Inl e)
     \<or> (\<exists>r. generateContent (discovery_request tpc cfg) = Inr r \<and> falsy (response_text r))
     \<or> (\<exists>r t. generateContent (discovery_request tpc cfg) = Inr r \<and> response_text r = Some t
               \<and> JSON_parse (cleanJson t) = Inl SyntaxError)"
proof -
  have p: "\<And>s e. JSON_parse s = Inl e \<Longrightarrow> e = SyntaxError"
    by (auto simp: JSON_parse_def split: option.splits if_splits)
  show ?thesis
    by (cases "generateContent (discovery_request tpc cfg)")
       (auto simp: researchTopic_def falsy_def dest: p split: option.splits if_splits)
qed

lemma handleSearch_failure:
  assumes "researchTopic API_KEY generateContent (query st) (config st) = Inl e"
  shows "handleSearch API_KEY generateContent accepts now1 now2 st =
     (if trim (query st) = [] then st
      else st\<lparr>isSearching := False, error := Some (js ''Failed to research topic. Please check your API key and try again.''),
              result := None, timelineImage := None, literatureReview := None,
              showSettings := False, currentResearchId := None\<rparr>)"
  using assms by (simp add: handleSearch_def Let_def)

lemma handleSearch_success:
  assumes "researchTopic API_KEY generateContent (query st) (config st) = Inr data"
    and "trim (query st) \<noteq> []"
  shows "historyItems (handleSearch API_KEY generateContent accepts now1 now2 st) =
     take 15 (\<lparr>h_id = Number_toString now1, h_timestamp = now2, h_topic = query st,
               h_result = data, h_timelineImage = None, h_literatureReview = None,
               h_config = config st\<rparr> # historyItems st)"
  using assms
  by (simp add: handleSearch_def Let_def saveToHistory_def setItem_def split: prod.splits)

text \<open>
  C5. When the discovery call fails, whatever the reason, the search handler leaves the
  history list and the persisted store as they were, shows no result and no active session,
  and reports an error; the history list changes only when the call returned a parsed
  value, and then the new session built from that value is saved in front.
\<close>

theorem discovery_failure_creates_no_session:
  "(\<forall>e. researchTopic API_KEY generateContent (query st) (config st) = Inl e \<longrightarrow>
       historyItems (handleSearch API_KEY generateContent accepts now1 now2 st) = historyItems st
       \<and> localStorage (handleSearch API_KEY generateContent accepts now1 now2 st) = localStorage st
       \<and> (trim (query st) \<noteq> [] \<longrightarrow>
            result (handleSearch API_KEY generateContent accepts now1 now2 st) = None
            \<and> currentResearchId (handleSearch API_KEY generateContent accepts now1 now2 st) = None
            \<and> error (handleSearch API_KEY generateContent accepts now1 now2 st) \<noteq> None))
   \<and> (historyItems (handleSearch API_KEY generateContent accepts now1 now2 st) \<noteq> historyItems st \<longrightarrow>
       (\<exists>data. researchTopic API_KEY generateContent (query st) (config st) = Inr data
          \<and> historyItems (handleSearch API_KEY generateContent accepts now1 now2 st) =
              take 15 (\<lparr>h_id = Number_toString now1, h_timestamp = now2, h_topic = query st,
                        h_result = data, h_timelineImage = None, h_literatureReview = None,
                        h_config = config st\<rparr> # historyItems st)))"
proof (intro conjI allI impI)
  fix e
  assume f: "researchTopic API_KEY generateContent (query st) (config st) = Inl e"
  show "historyItems (handleSearch API_KEY generateContent accepts now1 now2 st) = historyItems st"
    by (simp add: handleSearch_failure[OF f])
  show "localStorage (handleSearch API_KEY generateContent accepts now1 now2 st) = localStorage st"
    by (simp add: handleSearch_failure[OF f])
  assume q: "trim (query st) \<noteq> []"
  show "result (handleSearch API_KEY generateContent accepts now1 now2 st) = None"
    using q by (simp add: handleSearch_failure[OF f])
  show "currentResearchId (handleSearch API_KEY generateContent accepts now1 now2 st) = None"
    using q by (simp add: handleSearch_failure[OF f])
  show "error (handleSearch API_KEY generateContent accepts now1 now2 st) \<noteq> None"
    using q by (simp add: handleSearch_failure[OF f])
next
  assume ch: "historyItems (handleSearch API_KEY generateContent accepts now1 now2 st) \<noteq> historyItems st"
  show "\<exists>data. researchTopic API_KEY generateContent (query st) (config st) = Inr data
          \<and> historyItems (handleSearch API_KEY generateContent accepts now1 now2 st) =
              take 15 (\<lparr>h_id = Number_toString now1, h_timestamp = now2, h_topic = query st,
                        h_result = data, h_timelineImage = None, h_literatureReview = None,
                        h_config = config st\<rparr> # historyItems st)"
  proof (cases "researchTopic API_KEY generateContent (query st) (config st)")
    case (Inl e)
    have "historyItems (handleSearch API_KEY generateContent accepts now1 now2 st) = historyItems st"
      by (simp add: handleSearch_failure[OF Inl])
    with ch show ?thesis by contradiction
  next
    case (Inr data)
    have q: "trim (query st) \<noteq> []"
      using ch by (auto simp: handleSearch_def)
    from handleSearch_success[OF Inr q] Inr show ?thesis by simp
  qed
qed


text \<open>
  The theorem on a store of one session: without a credential the list stays, and with a
  credential and the response \<open>{}\<close> a second session is added.
\<close>

theorem discovery_failure_creates_no_session_witness:
  "researchTopic None (reply_text (Some (js ''{}''))) (js ''CRISPR'') initial_config
     = Inl (Error (js ''API Key is missing''))
   \<and> historyItems (handleSearch None (reply_text (Some (js ''{}''))) accepts_all 1 2
        (initial_state\<lparr>query := js ''CRISPR'', historyItems := [sample_item (js ''1'')]\<rparr>))
     = [sample_item (js ''1'')]
   \<and> length (historyItems (handleSearch (Some (js ''key'')) (reply_text (Some (js ''{}''))) accepts_all 1 2
        (initial_state\<lparr>query := js ''CRISPR'', historyItems := [sample_item (js ''1'')]\<rparr>)))
     = 2"
proof -
  let ?g = "reply_text (Some (js ''{}''))"
  let ?st = "initial_state\<lparr>query := js ''CRISPR'', historyItems := [sample_item (js ''1'')]\<rparr>"
  have q: "query ?st = js ''CRISPR''" and c: "config ?st = initial_config"
    and h: "historyItems ?st = [sample_item (js ''1'')]"
    by (simp_all add: initial_state_def)
  have f: "researchTopic None ?g (js ''CRISPR'') initial_config = Inl (Error (js ''API Key is missing''))"
    by (simp add: researchTopic_def falsy_def)
  then have f': "researchTopic None ?g (query ?st) (config ?st) = Inl (Error (js ''API Key is missing''))"
    by (simp only: q c)
  have 1: "historyItems (handleSearch None ?g accepts_all 1 2 ?st) = [sample_item (js ''1'')]"
    using discovery_failure_creates_no_session[of None ?g ?st accepts_all 1 2] f' h by metis
  have p: "JSON_parse (cleanJson (js ''{}'')) = Inr (JObject [])"
    by code_simp
  have s: "researchTopic (Some (js ''key'')) ?g (query ?st) (config ?st) = Inr (JObject [])"
    using p by (simp add: researchTopic_def falsy_def reply_text_def js_def)
  have t: "trim (query ?st) \<noteq> []"
    unfolding q by code_simp
  have "length (historyItems (handleSearch (Some (js ''key'')) ?g accepts_all 1 2 ?st)) = 2"
    using handleSearch_success[OF s t, of accepts_all 1 2] h by simp
  then have ne: "historyItems (handleSearch (Some (js ''key'')) ?g accepts_all 1 2 ?st) \<noteq> historyItems ?st"
    using h by auto
  from discovery_failure_creates_no_session[of "Some (js ''key'')" ?g ?st accepts_all 1 2] ne
  have "\<exists>data. historyItems (handleSearch (Some (js ''key'')) ?g accepts_all 1 2 ?st) =
      take 15 (\<lparr>h_id = Number_toString 1, h_timestamp = 2, h_topic = query ?st,
                h_result = data, h_timelineImage = None, h_literatureReview = None,
                h_config = config ?st\<rparr> # historyItems ?st)"
    by blast
  then have 2: "length (historyItems (handleSearch (Some (js ''key'')) ?g accepts_all 1 2 ?st)) = 2"
    using h by auto
  show ?thesis using f 1 2 by simp
qed

text \<open>
  C6 (as amended). A response without text (absent or empty) makes the discovery stage fail
  with the error \<open>No response from Gemini\<close>; the literature-review stage does not fail on
  it and returns the fixed text \<open>Failed to generate literature review.\<close> as its review.
\<close>

theorem empty_response_handling:
  "(\<not> falsy API_KEY \<and> generateContent (discovery_request tpc cfg) = Inr r \<and> falsy (response_text r) \<longrightarrow>
      researchTopic API_KEY generateContent tpc cfg = Inl (Error (js ''No response from Gemini'')))
   \<and> (\<not> falsy API_KEY \<and> generateContent (review_request res lang citationStyle) = Inr r'
        \<and> falsy (response_text r') \<longrightarrow>
      generateLiteratureReview API_KEY generateContent res lang citationStyle
        = Inr (js ''Failed to generate literature review.''))"
  by (auto simp: researchTopic_def generateLiteratureReview_def falsy_def)

text \<open>The theorem at an absent text for discovery and an empty text for the review.\<close>

theorem empty_response_handling_witness:
  "researchTopic (Some (js ''key'')) (reply_text None) (js ''CRISPR'') initial_config
     = Inl (Error (js ''No response from Gemini''))
   \<and> generateLiteratureReview (Some (js ''key'')) (reply_text (Some [])) (sample_result [])
        (js ''en'') (js ''apa'')
     = Inr (js ''Failed to generate literature review.'')"
proof -
  have k: "\<not> falsy (Some (js ''key''))" by (simp add: falsy_def js_def)
  have 1: "reply_text None (discovery_request (js ''CRISPR'') initial_config) = Inr \<lparr>response_text = None\<rparr>
      \<and> falsy (response_text \<lparr>response_text = None\<rparr>)"
    by (simp add: reply_text_def falsy_def)
  have 2: "reply_text (Some []) (review_request (sample_result []) (js ''en'') (js ''apa''))
        = Inr \<lparr>response_text = Some []\<rparr>
      \<and> falsy (response_text \<lparr>response_text = Some []\<rparr>)"
    by (simp add: reply_text_def falsy_def)
  show ?thesis
    using empty_response_handling[of "Some (js ''key'')" "reply_text None" "js ''CRISPR''" initial_config
        "\<lparr>response_text = None\<rparr>"]
      empty_response_handling[of "Some (js ''key'')" "reply_text (Some [])" _ _ _
        "sample_result []" "js ''en''" "js ''apa''" "\<lparr>response_text = Some []\<rparr>"]
      k 1 2 by blast
qed

text \<open>
  C6 as stated fails: on a response without text the literature-review stage returns a
  review instead of failing.
\<close>

theorem review_empty_text_counterexample:
  "generateLiteratureReview (Some (js ''key'')) (reply_text None) (sample_result [])
     (js ''en'') (js ''apa'')
   = Inr (js ''Failed to generate literature review.'')"
  by (simp add: generateLiteratureReview_def reply_text_def falsy_def) (simp add: js_def)

section \<open>Configuration compiler\<close>






















section \<open>Context builder\<close>





















end
